theory Spec2Isabelle
  imports Main "HOL-Library.AList"
begin

section \<open>Python values used by scanserv.py\<close>

text \<open>
  Decimal rendering of a non-negative integer, as an f-string does for
  \<^verbatim>\<open>{i}\<close>, \<^verbatim>\<open>{len(files)}\<close> and \<^verbatim>\<open>{response.status_code}\<close>.
\<close>

fun str_nat :: "nat \<Rightarrow> string" where
  "str_nat n =
     (if n < 10 then [''0123456789'' ! n]
      else str_nat (n div 10) @ [''0123456789'' ! (n mod 10)])"

declare str_nat.simps [simp del]

text \<open>
  Truthiness of a value that is either \<^verbatim>\<open>None\<close> or a \<^verbatim>\<open>str\<close>: \<^verbatim>\<open>None\<close> and the
  empty string are false, every other string is true.
\<close>

definition py_truthy :: "string option \<Rightarrow> bool" where
  "py_truthy v = (case v of None \<Rightarrow> False | Some s \<Rightarrow> s \<noteq> [])"

text \<open>
  Exceptions that the program raises or lets escape. \<open>OSError\<close> stands for whatever a
  failing file operation raises (an \<^verbatim>\<open>OSError\<close>, or the \<^verbatim>\<open>ValueError\<close> for a path that
  holds a NUL character): no handler of the program catches it.
\<close>

datatype exn = ValueError | TypeError | OverflowError | OSError | SystemExit nat

section \<open>Configuration loader\<close>

text \<open>
  The value \<^verbatim>\<open>tomli.load\<close> returns is a dict from keys to TOML values; a dict is an
  association list with unique keys, in insertion order.
\<close>

datatype toml =
    TInt int
  | TStr string
  | TBool bool
  | TTable "(string \<times> toml) list"
  | TArray "toml list"

type_synonym config = "(string \<times> toml) list"

text \<open>
  What \<^verbatim>\<open>load_config\<close> finds at the path \<^verbatim>\<open>get_config_path()\<close> names:
  no file (\<^verbatim>\<open>os.path.exists\<close> is false), a file whose opening or parsing raises
  (with the exception's text), or a file that \<^verbatim>\<open>tomli.load\<close> parses.
\<close>

datatype config_file =
    NoFile
  | Malformed string
  | Parsed config

definition defaults :: config where
  "defaults =
     [(''server'', TStr ''http://scan.home''),
      (''device'', TInt 1),
      (''scan'', TTable [(''resolution'', TInt 200),
                         (''mode'', TStr ''Color''),
                         (''quality'', TStr ''high'')]),
      (''files'', TTable [(''output_dir'', TStr ''scans'')])]"

text \<open>\<^verbatim>\<open>d[k]\<close> on the literal \<^verbatim>\<open>defaults\<close>, whose keys are all present.\<close>

definition defaults_at :: "string \<Rightarrow> toml" where
  "defaults_at k = the (map_of defaults k)"

text \<open>\<^verbatim>\<open>if k not in config: config[k] = defaults[k]\<close>\<close>

definition backfill :: "string \<Rightarrow> config \<Rightarrow> config" where
  "backfill k c = (if map_of c k = None then AList.update k (defaults_at k) c else c)"

text \<open>
  \<^verbatim>\<open>load_config\<close> returns the configuration and the lines it printed.
\<close>

definition load_config :: "config_file \<Rightarrow> config \<times> string list" where
  "load_config f =
     (case f of
        NoFile \<Rightarrow> (defaults, [])
      | Malformed e \<Rightarrow> (defaults, [''Warning: Error reading config file: '' @ e])
      | Parsed c \<Rightarrow> (backfill ''device'' (backfill ''files'' (backfill ''scan'' c)), []))"

text \<open>\<^verbatim>\<open>config.get(k)\<close>: \<^verbatim>\<open>None\<close> when the key is missing.\<close>

definition config_get :: "config \<Rightarrow> string \<Rightarrow> toml option" where
  "config_get c k = map_of c k"

section \<open>Integer conversion\<close>

text \<open>
  The argument of \<^verbatim>\<open>select_scanner\<close> is passed to \<^verbatim>\<open>int(...)\<close>. From \<^verbatim>\<open>main\<close> it is the
  \<^verbatim>\<open>int\<close> that \<^verbatim>\<open>argparse\<close> produces for \<^verbatim>\<open>--device\<close>, or the configuration's
  \<^verbatim>\<open>device\<close> value as the file has it: an \<^verbatim>\<open>int\<close>, a \<^verbatim>\<open>bool\<close>, a \<^verbatim>\<open>float\<close>
  (\<open>FloatArg m e\<close> is the finite float \<^verbatim>\<open>m * 2**e\<close>, \<open>FloatInf\<close> either infinity), or a
  value \<^verbatim>\<open>int\<close> does not accept (a date, a time, an array, a table). A direct caller may
  pass a \<^verbatim>\<open>str\<close>; a \<open>string\<close> is a \<^verbatim>\<open>str\<close> whose code points are all below 256, one
  \<open>char\<close> for each.
\<close>

datatype pyarg =
    IntArg int
  | StrArg string
  | BoolArg bool
  | FloatArg int int
  | FloatInf
  | FloatNaN
  | ObjArg

text \<open>
  \<^verbatim>\<open>int(s)\<close> for a \<^verbatim>\<open>str\<close> in base 10: whitespace is stripped at both ends (the ASCII
  whitespace characters and, of the code points from 128 to 255, U+0085 and U+00A0), one
  optional sign follows, then decimal digits, where single underscores may stand between
  digits. Anything else raises \<^verbatim>\<open>ValueError\<close>, and so does a literal of more than 4300
  digits (the default limit of CPython 3.11 and later).
\<close>

definition is_space :: "char \<Rightarrow> bool" where
  "is_space c = (c \<in> set [CHR 0x20, CHR 0x09, CHR 0x0A, CHR 0x0B, CHR 0x0C, CHR 0x0D,
                           CHR 0x85, CHR 0xA0])"

definition is_digit :: "char \<Rightarrow> bool" where
  "is_digit c = (c \<in> set ''0123456789'')"

definition digit_val :: "char \<Rightarrow> nat" where
  "digit_val c = of_char c - 48"

definition strip :: "string \<Rightarrow> string" where
  "strip s = dropWhile is_space (rev (dropWhile is_space (rev s)))"

fun parse_digits :: "nat \<Rightarrow> string \<Rightarrow> nat option" where
  "parse_digits acc [] = None"
| "parse_digits acc (c # cs) =
     (if is_digit c then
        (case cs of
           [] \<Rightarrow> Some (acc * 10 + digit_val c)
         | d # ds \<Rightarrow>
             if d = CHR ''_'' then parse_digits (acc * 10 + digit_val c) ds
             else parse_digits (acc * 10 + digit_val c) cs)
      else None)"

definition int_max_str_digits :: nat where
  "int_max_str_digits = 4300"

definition int_of_str :: "string \<Rightarrow> exn + int" where
  "int_of_str s =
     (if int_max_str_digits < length (filter is_digit (strip s)) then Inl ValueError
      else
        (case strip s of
           [] \<Rightarrow> Inl ValueError
         | c # cs \<Rightarrow>
             if c = CHR ''-'' then
               (case parse_digits 0 cs of None \<Rightarrow> Inl ValueError | Some n \<Rightarrow> Inr (- int n))
             else if c = CHR ''+'' then
               (case parse_digits 0 cs of None \<Rightarrow> Inl ValueError | Some n \<Rightarrow> Inr (int n))
             else
               (case parse_digits 0 (c # cs) of
                  None \<Rightarrow> Inl ValueError
                | Some n \<Rightarrow> Inr (int n))))"

text \<open>\<^verbatim>\<open>int(x)\<close> for the finite float \<^verbatim>\<open>m * 2**e\<close>: the value, truncated towards zero.\<close>

definition float_trunc :: "int \<Rightarrow> int \<Rightarrow> int" where
  "float_trunc m e =
     (if 0 \<le> e then m * 2 ^ nat e
      else sgn m * (\<bar>m\<bar> div 2 ^ nat (- e)))"

definition py_int :: "pyarg \<Rightarrow> exn + int" where
  "py_int v =
     (case v of
        IntArg i \<Rightarrow> Inr i
      | StrArg s \<Rightarrow> int_of_str s
      | BoolArg b \<Rightarrow> Inr (if b then 1 else 0)
      | FloatArg m e \<Rightarrow> Inr (float_trunc m e)
      | FloatInf \<Rightarrow> Inl OverflowError
      | FloatNaN \<Rightarrow> Inl ValueError
      | ObjArg \<Rightarrow> Inl TypeError)"

section \<open>The server, the console and the file system\<close>

text \<open>The JSON objects of the server's API, with the keys the client reads.\<close>

record device =
  dev_id :: string
  dev_name :: string

record remote_file =
  file_name :: string
  sizeString :: string

record scan_params =
  deviceId :: string
  resolution :: int
  mode :: string
  width :: int
  height :: int
  pageWidth :: int
  pageHeight :: int
  top' :: int
  left' :: int

record scan_request =
  params :: scan_params
  pipeline :: string

text \<open>
  What a call of \<^verbatim>\<open>requests.get\<close> or \<^verbatim>\<open>requests.post\<close> gives: a response with its
  status code, its text and its decoded content (\<^verbatim>\<open>.json()\<close> or \<^verbatim>\<open>.content\<close>), or a
  raised \<^verbatim>\<open>RequestException\<close> with its message.
\<close>

datatype 'a response =
    Response nat string 'a
  | RequestException string

text \<open>
  The server answers each request; the answer may depend on how many requests the client
  has made before (the first argument) and on the request. One field per endpoint, typed
  by the shape the endpoint's content has:
  \<^item> \<^verbatim>\<open>GET /api/v1/context\<close>: an object whose key \<^verbatim>\<open>devices\<close> may be missing;
  \<^item> \<^verbatim>\<open>GET /api/v1/files\<close>: a list of file entries;
  \<^item> \<^verbatim>\<open>GET /api/v1/files/<name>\<close>: the bytes of the file;
  \<^item> \<^verbatim>\<open>POST /api/v1/scan\<close>: an object whose key \<^verbatim>\<open>file\<close> may be missing, and which
    holds the file's name otherwise.
\<close>

record server =
  get_context :: "nat \<Rightarrow> string \<Rightarrow> device list option response"
  get_files :: "nat \<Rightarrow> string \<Rightarrow> remote_file list response"
  get_file :: "nat \<Rightarrow> string \<Rightarrow> string response"
  post_scan :: "nat \<Rightarrow> string \<Rightarrow> scan_request \<Rightarrow> string option response"

text \<open>Everything the program does to its surroundings, in the order it does it.\<close>

datatype event =
    Print string
  | HttpGet string
  | HttpPost string scan_request
  | MakeDirs string
  | WriteFile string string

record world =
  trace :: "event list"
  clock :: nat
  dirs :: "string set"
  files :: "string \<rightharpoonup> string"

definition print :: "string \<Rightarrow> world \<Rightarrow> world" where
  "print s w = w\<lparr>trace := trace w @ [Print s]\<rparr>"

text \<open>Issuing a request: it is recorded, and the count of requests made goes up.\<close>

definition request :: "event \<Rightarrow> world \<Rightarrow> world" where
  "request e w = w\<lparr>trace := trace w @ [e], clock := Suc (clock w)\<rparr>"

text \<open>
  Whether a file operation succeeds is the file system's answer, which may depend on the
  time (the number of requests made so far) and on the path.
  \<^item> \<open>makedirs_fails n p = None\<close>: \<^verbatim>\<open>os.makedirs(p, exist_ok=True)\<close> succeeds;
    \<open>Some j\<close>: it raises after creating the first \<open>j\<close> ancestors of \<open>p\<close>.
  \<^item> \<open>write_outcome n p c\<close>: \<^verbatim>\<open>open(p, 'wb')\<close> followed by \<^verbatim>\<open>f.write(c)\<close> succeeds, or
    \<^verbatim>\<open>open\<close> raises and nothing changes, or the write raises after the first \<open>k\<close> bytes.
  The empty path cannot be created or opened. An operation that raises leaves no entry in
  the trace: the exception is the result.
\<close>

datatype write_result = Written | OpenRaises | WriteRaises nat

record filesystem =
  makedirs_fails :: "nat \<Rightarrow> string \<Rightarrow> nat option"
  write_outcome :: "nat \<Rightarrow> string \<Rightarrow> string \<Rightarrow> write_result"

text \<open>
  \<^verbatim>\<open>os.makedirs(p, exist_ok=True)\<close>: the directory and every missing ancestor are created;
  nothing changes where they exist already.
\<close>

definition ancestors :: "string \<Rightarrow> string list" where
  "ancestors p = [take i p. i \<leftarrow> [1..<length p], p ! i = CHR ''/'']"

definition makedirs :: "filesystem \<Rightarrow> string \<Rightarrow> world \<Rightarrow> (exn + unit) \<times> world" where
  "makedirs fs p w =
     (if p = [] then (Inl OSError, w)
      else
        (case makedirs_fails fs (clock w) p of
           None \<Rightarrow> (Inr (), w\<lparr>trace := trace w @ [MakeDirs p],
                                dirs := insert p (set (ancestors p) \<union> dirs w)\<rparr>)
         | Some j \<Rightarrow> (Inl OSError, w\<lparr>dirs := set (take j (ancestors p)) \<union> dirs w\<rparr>)))"

text \<open>\<^verbatim>\<open>with open(p, 'wb') as f: f.write(content)\<close>\<close>

definition write_file ::
  "filesystem \<Rightarrow> string \<Rightarrow> string \<Rightarrow> world \<Rightarrow> (exn + unit) \<times> world" where
  "write_file fs p content w =
     (if p = [] then (Inl OSError, w)
      else
        (case write_outcome fs (clock w) p content of
           Written \<Rightarrow> (Inr (), w\<lparr>trace := trace w @ [WriteFile p content],
                                   files := (files w)(p \<mapsto> content)\<rparr>)
         | OpenRaises \<Rightarrow> (Inl OSError, w)
         | WriteRaises k \<Rightarrow> (Inl OSError, w\<lparr>files := (files w)(p \<mapsto> take k content)\<rparr>)))"

text \<open>\<^verbatim>\<open>os.path.join(a, b)\<close> on a POSIX system.\<close>

definition path_join :: "string \<Rightarrow> string \<Rightarrow> string" where
  "path_join a b =
     (if b \<noteq> [] \<and> hd b = CHR ''/'' then b
      else if a = [] \<or> last a = CHR ''/'' then a @ b
      else a @ ''/'' @ b)"

section \<open>The Scanner class\<close>

record scanner =
  server_url :: string
  device_id :: "string option"
  devices :: "device list"

definition Scanner :: "string \<Rightarrow> scanner" where
  "Scanner url = \<lparr>server_url = url, device_id = None, devices = []\<rparr>"

text \<open>The loop of \<^verbatim>\<open>list_scanners\<close> over \<^verbatim>\<open>enumerate(self.devices, 1)\<close>.\<close>

fun print_devices :: "nat \<Rightarrow> device list \<Rightarrow> world \<Rightarrow> world" where
  "print_devices i [] w = w"
| "print_devices i (d # ds) w =
     print_devices (Suc i) ds
       (print [] (print (''   Name: '' @ dev_name d)
          (print (str_nat i @ ''. ID: '' @ dev_id d) w)))"

definition list_scanners :: "server \<Rightarrow> scanner \<Rightarrow> world \<Rightarrow> device list \<times> scanner \<times> world" where
  "list_scanners srv s w =
     (let url = server_url s @ ''/api/v1/context'';
          w1 = request (HttpGet url) w
      in case get_context srv (clock w) url of
           Response code txt data \<Rightarrow>
             if code = 200 then
               (let ds = (case data of None \<Rightarrow> [] | Some ds \<Rightarrow> ds);
                    s1 = s\<lparr>devices := ds\<rparr>;
                    w2 = print ''Available scanners:'' w1;
                    w3 = print_devices 1 ds w2
                in (ds, s1, w3))
             else ([], s, print (''Error: '' @ str_nat code) w1)
         | RequestException e \<Rightarrow> ([], s, print (''Connection error: '' @ e) w1))"

text \<open>
  \<^verbatim>\<open>select_scanner\<close> returns normally (\<open>Inr ()\<close>) or leaves through \<^verbatim>\<open>sys.exit(1)\<close>
  (\<open>Inl (SystemExit 1)\<close>), which the \<^verbatim>\<open>except ValueError\<close> clause does not catch. The
  clause catches the \<^verbatim>\<open>ValueError\<close> of \<^verbatim>\<open>int\<close> only: a \<^verbatim>\<open>TypeError\<close> or an
  \<^verbatim>\<open>OverflowError\<close> escapes.
\<close>

definition select_scanner ::
  "server \<Rightarrow> pyarg \<Rightarrow> scanner \<Rightarrow> world \<Rightarrow> (exn + unit) \<times> scanner \<times> world" where
  "select_scanner srv device_number s w =
     (case (if devices s = [] then snd (list_scanners srv s w) else (s, w)) of
        (s1, w1) \<Rightarrow>
          if devices s1 = [] then (Inl (SystemExit 1), s1, print ''No scanners found'' w1)
          else
            (case py_int device_number of
               Inl e \<Rightarrow>
                 if e = ValueError then
                   (Inl (SystemExit 1), s1, print ''Invalid scanner number'' w1)
                 else (Inl e, s1, w1)
             | Inr n \<Rightarrow>
                 (let index = n - 1 in
                  if 0 \<le> index \<and> index < int (length (devices s1)) then
                    (Inr (),
                     s1\<lparr>device_id := Some (dev_id (devices s1 ! nat index))\<rparr>,
                     print (''Selected scanner: '' @ dev_name (devices s1 ! nat index)) w1)
                  else
                    (Inl (SystemExit 1), s1,
                     print (''Invalid scanner number. Please choose between 1 and ''
                              @ str_nat (length (devices s1))) w1))))"

text \<open>The loop of \<^verbatim>\<open>list_files\<close> over the entries.\<close>

fun print_files :: "remote_file list \<Rightarrow> world \<Rightarrow> world" where
  "print_files [] w = w"
| "print_files (f # fs) w =
     print_files fs (print (''- '' @ file_name f @ '' ('' @ sizeString f @ '')'') w)"

definition list_files :: "server \<Rightarrow> scanner \<Rightarrow> world \<Rightarrow> remote_file list \<times> world" where
  "list_files srv s w =
     (let url = server_url s @ ''/api/v1/files'';
          w1 = request (HttpGet url) w
      in case get_files srv (clock w) url of
           Response code txt fl \<Rightarrow>
             if code = 200 then
               (if fl \<noteq> [] then
                  (fl, print [] (print_files fl (print (CHR 0x0A # ''Files on server:'') w1)))
                else (fl, w1))
             else ([], print (''Error: '' @ str_nat code) w1)
         | RequestException e \<Rightarrow> ([], print (''Connection error: '' @ e) w1))"

definition download_file ::
  "server \<Rightarrow> filesystem \<Rightarrow> scanner \<Rightarrow> string \<Rightarrow> string option \<Rightarrow> world
     \<Rightarrow> (exn + string option) \<times> world" where
  "download_file srv fs s filename output_dir w =
     (let file_url = server_url s @ ''/api/v1/files/'' @ filename;
          w1 = request (HttpGet file_url) w
      in case get_file srv (clock w) file_url of
           Response code txt content \<Rightarrow>
             if code = 200 then
               (let local_path = (if py_truthy output_dir then path_join (the output_dir) filename
                                  else filename)
                in case (if py_truthy output_dir then makedirs fs (the output_dir) w1
                         else (Inr (), w1)) of
                     (Inl e, w2) \<Rightarrow> (Inl e, w2)
                   | (Inr u, w2) \<Rightarrow>
                       (case write_file fs local_path content w2 of
                          (Inl e, w3) \<Rightarrow> (Inl e, w3)
                        | (Inr u, w3) \<Rightarrow> (Inr (Some local_path), w3)))
             else (Inr None,
                   print (''Error downloading '' @ filename @ '': '' @ str_nat code) w1)
         | RequestException e \<Rightarrow>
             (Inr None,
              print (''Connection error downloading '' @ filename @ '': '' @ e) w1))"

text \<open>
  The loop of \<^verbatim>\<open>download_all\<close> over the listed files. It has no handler: an exception
  that escapes \<^verbatim>\<open>download_file\<close> ends it.
\<close>

fun download_each ::
  "server \<Rightarrow> filesystem \<Rightarrow> scanner \<Rightarrow> string option \<Rightarrow> remote_file list \<Rightarrow> world
     \<Rightarrow> (exn + unit) \<times> world" where
  "download_each srv fs s output_dir [] w = (Inr (), w)"
| "download_each srv fs s output_dir (file_info # rest) w =
     (case download_file srv fs s (file_name file_info) output_dir
             (print (''Downloading '' @ file_name file_info @ ''...'') w) of
        (Inl e, w2) \<Rightarrow> (Inl e, w2)
      | (Inr local_path, w2) \<Rightarrow>
          download_each srv fs s output_dir rest
            (if py_truthy local_path then print (''Saved to: '' @ the local_path) w2 else w2))"

definition download_all ::
  "server \<Rightarrow> filesystem \<Rightarrow> scanner \<Rightarrow> string option \<Rightarrow> world \<Rightarrow> (exn + unit) \<times> world" where
  "download_all srv fs s output_dir w =
     (case (if py_truthy output_dir then makedirs fs (the output_dir) w else (Inr (), w)) of
        (Inl e, w0) \<Rightarrow> (Inl e, w0)
      | (Inr u, w0) \<Rightarrow>
          (case list_files srv s w0 of
             (fl, w1) \<Rightarrow>
               if fl = [] then (Inr (), print ''No files found on server'' w1)
               else download_each srv fs s output_dir fl
                      (print (''Found '' @ str_nat (length fl) @ '' files'') w1)))"

definition scan_a4 ::
  "server \<Rightarrow> filesystem \<Rightarrow> scanner \<Rightarrow> string option \<Rightarrow> int \<Rightarrow> string \<Rightarrow> string \<Rightarrow> world
     \<Rightarrow> (exn + string option) \<times> world" where
  "scan_a4 srv fs s output_dir res md quality w =
     (if \<not> py_truthy (device_id s) then
        (Inr None, print ''No scanner selected. Use --device to select a scanner.'' w)
      else
        (case (if py_truthy output_dir then makedirs fs (the output_dir) w else (Inr (), w)) of
           (Inl e, w0) \<Rightarrow> (Inl e, w0)
         | (Inr u, w0) \<Rightarrow>
             (let wd = 210;
                  hg = 297;
                  scan_req = \<lparr>params = \<lparr>deviceId = the (device_id s), resolution = res,
                                         mode = md, width = wd, height = hg, pageWidth = wd,
                                         pageHeight = hg, top' = 0, left' = 0\<rparr>,
                              pipeline = ''JPG | @:pipeline.'' @ quality @ ''-quality''\<rparr>;
                  url = server_url s @ ''/api/v1/scan'';
                  w1 = print ''Scanning...'' w0;
                  w2 = request (HttpPost url scan_req) w1
              in case post_scan srv (clock w1) url scan_req of
                   Response code txt result \<Rightarrow>
                     if code = 200 then
                       (case result of
                          Some filename \<Rightarrow>
                            (let w3 = print (''File on server: '' @ filename)
                                        (print ''Scan successful!'' w2)
                             in if output_dir \<noteq> None then
                                  (case download_file srv fs s filename output_dir
                                          (print ''Downloading...'' w3) of
                                     (Inl e, w4) \<Rightarrow> (Inl e, w4)
                                   | (Inr local_path, w4) \<Rightarrow>
                                       if py_truthy local_path then
                                         (Inr local_path,
                                          print (''Saved to: '' @ the local_path) w4)
                                       else (Inr None, w4))
                                else (Inr None, w3))
                        | None \<Rightarrow>
                            (Inr None,
                             print ''Scan completed but no file information returned'' w2))
                     else (Inr None, print txt (print (''Error: '' @ str_nat code) w2))
                 | RequestException e \<Rightarrow>
                     (Inr None, print (''Connection error: '' @ e) w2))))"

section \<open>The command line\<close>

text \<open>
  The namespace \<^verbatim>\<open>parser.parse_args()\<close> returns. \<^verbatim>\<open>server\<close> and \<^verbatim>\<open>output_dir\<close> are
  \<^verbatim>\<open>None\<close> when neither the command line nor the configuration gives them.
\<close>

record args =
  arg_server :: "string option"
  arg_device :: pyarg
  arg_list :: bool
  arg_scan :: bool
  arg_no_download :: bool
  arg_download_all :: bool
  arg_download :: "string option"
  arg_output_dir :: "string option"
  arg_resolution :: int
  arg_mode :: string
  arg_quality :: string

text \<open>An f-string renders \<^verbatim>\<open>None\<close> as the text \<^verbatim>\<open>None\<close>.\<close>

definition fstr :: "string option \<Rightarrow> string" where
  "fstr v = (case v of None \<Rightarrow> ''None'' | Some s \<Rightarrow> s)"

text \<open>
  \<^verbatim>\<open>main\<close> after \<^verbatim>\<open>parse_args\<close>; \<open>has_args\<close> is \<^verbatim>\<open>len(sys.argv) > 1\<close>. The result is
  \<open>Inr ()\<close> when \<^verbatim>\<open>main\<close> returns and \<open>Inl e\<close> when the exception \<open>e\<close> ends it:
  \<^verbatim>\<open>main\<close> has no handler. Its three \<^verbatim>\<open>if\<close> blocks follow, each on the state the one
  before leaves.
\<close>

definition main_scan ::
  "server \<Rightarrow> filesystem \<Rightarrow> scanner \<Rightarrow> args \<Rightarrow> world \<Rightarrow> (exn + unit) \<times> scanner \<times> world" where
  "main_scan srv fs s a w =
     (if arg_scan a then
        (case select_scanner srv (arg_device a) s w of
           (Inl e, s1, w1) \<Rightarrow> (Inl e, s1, w1)
         | (Inr u, s1, w1) \<Rightarrow>
             (case scan_a4 srv fs s1 (if arg_no_download a then None else arg_output_dir a)
                     (arg_resolution a) (arg_mode a) (arg_quality a) w1 of
                (Inl e, w2) \<Rightarrow> (Inl e, s1, w2)
              | (Inr p, w2) \<Rightarrow> (Inr (), s1, w2)))
      else (Inr (), s, w))"

definition main_download_all ::
  "server \<Rightarrow> filesystem \<Rightarrow> scanner \<Rightarrow> args \<Rightarrow> world \<Rightarrow> (exn + unit) \<times> world" where
  "main_download_all srv fs s a w =
     (if arg_download_all a then download_all srv fs s (arg_output_dir a) w else (Inr (), w))"

definition main_download ::
  "server \<Rightarrow> filesystem \<Rightarrow> scanner \<Rightarrow> args \<Rightarrow> world \<Rightarrow> (exn + unit) \<times> world" where
  "main_download srv fs s a w =
     (if py_truthy (arg_download a) then
        (case download_file srv fs s (the (arg_download a)) (arg_output_dir a) w of
           (Inl e, w1) \<Rightarrow> (Inl e, w1)
         | (Inr local_path, w1) \<Rightarrow>
             if py_truthy local_path then
               (Inr (),
                print (''Downloaded '' @ the (arg_download a) @ '' '' @
                         (if py_truthy (arg_output_dir a) then ''to '' @ the (arg_output_dir a)
                          else ''to current directory'')) w1)
             else (Inr (), w1))
      else (Inr (), w))"

definition main ::
  "server \<Rightarrow> filesystem \<Rightarrow> bool \<Rightarrow> args \<Rightarrow> world \<Rightarrow> (exn + unit) \<times> world" where
  "main srv fs has_args a w =
     (let s = Scanner (fstr (arg_server a)) in
      if \<not> has_args \<or> arg_list a then
        (case list_scanners srv s w of
           (ds, s1, w1) \<Rightarrow> (Inr (), snd (list_files srv s1 w1)))
      else
        (case main_scan srv fs s a w of
           (Inl e, s1, w1) \<Rightarrow> (Inl e, w1)
         | (Inr u, s1, w1) \<Rightarrow>
             (case main_download_all srv fs s1 a w1 of
                (Inl e, w2) \<Rightarrow> (Inl e, w2)
              | (Inr u, w2) \<Rightarrow> main_download srv fs s1 a w2)))"

text \<open>
  The status the process ends with: 0 when \<^verbatim>\<open>main\<close> returns, the argument of
  \<^verbatim>\<open>sys.exit\<close>, and 1 for an exception that nothing catches.
\<close>

definition exit_status :: "exn + unit \<Rightarrow> nat" where
  "exit_status r = (case r of Inr u \<Rightarrow> 0 | Inl e \<Rightarrow> (case e of SystemExit c \<Rightarrow> c | _ \<Rightarrow> 1))"

section \<open>Observations on a trace\<close>

text \<open>The URLs of the GET requests of a trace, and the POST requests with their bodies, in order.\<close>

definition gets :: "event list \<Rightarrow> string list" where
  "gets evs = [u. HttpGet u \<leftarrow> evs]"

definition posts :: "event list \<Rightarrow> (string \<times> scan_request) list" where
  "posts evs = [(u, b). HttpPost u b \<leftarrow> evs]"

section \<open>Example surroundings\<close>

text \<open>
  Concrete servers, file systems, a scanner object and a command line, on which the
  theorems below are instantiated: a server with one device and two files, of which
  \<^verbatim>\<open>a.jpg\<close> cannot be downloaded; a server that answers every request with status 200; a
  server that cannot be reached; a server that lists no device; a file system on which
  every operation succeeds, one in which no file can be opened for writing, one in
  which no directory can be created, and one in which \<^verbatim>\<open>scans/sub/a.jpg\<close> cannot be
  opened because there is no directory \<^verbatim>\<open>scans/sub\<close>; a server that lists a file of that
  name.
\<close>

definition canon :: device where
  "canon = \<lparr>dev_id = ''dev1'', dev_name = ''Canon''\<rparr>"

definition world0 :: world where
  "world0 = \<lparr>trace = [], clock = 0, dirs = {}, files = Map.empty\<rparr>"

definition selected :: scanner where
  "selected = \<lparr>server_url = ''http://scan.home'', device_id = Some ''dev1'', devices = [canon]\<rparr>"

definition two_files :: "remote_file list" where
  "two_files = [\<lparr>file_name = ''a.jpg'', sizeString = ''1 KB''\<rparr>,
                \<lparr>file_name = ''b.jpg'', sizeString = ''2 KB''\<rparr>]"

definition demo_server :: server where
  "demo_server =
     \<lparr>get_context = (\<lambda>n u. Response 200 [] (Some [canon])),
      get_files = (\<lambda>n u. Response 200 [] two_files),
      get_file = (\<lambda>n u. if u = ''http://scan.home/api/v1/files/a.jpg''
                          then Response 404 ''Not Found'' [] else Response 200 [] ''JFIF''),
      post_scan = (\<lambda>n u b. Response 200 [] (Some ''scan.jpg''))\<rparr>"

definition ok_server :: server where
  "ok_server =
     \<lparr>get_context = (\<lambda>n u. Response 200 [] (Some [canon])),
      get_files = (\<lambda>n u. Response 200 [] two_files),
      get_file = (\<lambda>n u. Response 200 [] ''JFIF''),
      post_scan = (\<lambda>n u b. Response 200 [] (Some ''scan.jpg''))\<rparr>"

definition offline_server :: server where
  "offline_server =
     \<lparr>get_context = (\<lambda>n u. RequestException ''refused''),
      get_files = (\<lambda>n u. RequestException ''refused''),
      get_file = (\<lambda>n u. RequestException ''refused''),
      post_scan = (\<lambda>n u b. RequestException ''refused'')\<rparr>"

definition no_scanner_server :: server where
  "no_scanner_server =
     \<lparr>get_context = (\<lambda>n u. Response 200 [] (Some [])),
      get_files = (\<lambda>n u. Response 200 [] []),
      get_file = (\<lambda>n u. Response 404 ''Not Found'' []),
      post_scan = (\<lambda>n u b. Response 500 ''no device'' None)\<rparr>"

definition subdir_files :: "remote_file list" where
  "subdir_files = [\<lparr>file_name = ''sub/a.jpg'', sizeString = ''1 KB''\<rparr>,
                   \<lparr>file_name = ''b.jpg'', sizeString = ''2 KB''\<rparr>]"

definition subdir_server :: server where
  "subdir_server =
     \<lparr>get_context = (\<lambda>n u. Response 200 [] (Some [canon])),
      get_files = (\<lambda>n u. Response 200 [] subdir_files),
      get_file = (\<lambda>n u. Response 200 [] ''JFIF''),
      post_scan = (\<lambda>n u b. Response 200 [] (Some ''sub/a.jpg''))\<rparr>"

definition good_fs :: filesystem where
  "good_fs = \<lparr>makedirs_fails = (\<lambda>n p. None), write_outcome = (\<lambda>n p c. Written)\<rparr>"

definition readonly_fs :: filesystem where
  "readonly_fs = \<lparr>makedirs_fails = (\<lambda>n p. None), write_outcome = (\<lambda>n p c. OpenRaises)\<rparr>"

definition no_mkdir_fs :: filesystem where
  "no_mkdir_fs = \<lparr>makedirs_fails = (\<lambda>n p. Some 0), write_outcome = (\<lambda>n p c. Written)\<rparr>"

definition flat_fs :: filesystem where
  "flat_fs =
     \<lparr>makedirs_fails = (\<lambda>n p. None),
      write_outcome = (\<lambda>n p c. if p = ''scans/sub/a.jpg'' then OpenRaises else Written)\<rparr>"

definition default_args :: args where
  "default_args =
     \<lparr>arg_server = Some ''http://scan.home'', arg_device = IntArg 1, arg_list = False,
      arg_scan = False, arg_no_download = False, arg_download_all = False,
      arg_download = None, arg_output_dir = Some ''scans'', arg_resolution = 200,
      arg_mode = ''Color'', arg_quality = ''high''\<rparr>"

text \<open>The definitions that evaluating a run on the console and the file system unfolds.\<close>

lemmas world_defs = print_def request_def makedirs_def write_file_def path_join_def
  ancestors_def py_truthy_def Let_def str_nat.simps world0_def


section \<open>Configuration loader: properties\<close>

lemma defaults_at_scan:
  "defaults_at ''scan'' =
     TTable [(''resolution'', TInt 200), (''mode'', TStr ''Color''), (''quality'', TStr ''high'')]"
  by (simp add: defaults_at_def defaults_def)

lemma defaults_at_files: "defaults_at ''files'' = TTable [(''output_dir'', TStr ''scans'')]"
  by (simp add: defaults_at_def defaults_def)

lemma defaults_at_device: "defaults_at ''device'' = TInt 1"
  by (simp add: defaults_at_def defaults_def)

lemma map_of_backfill:
  "map_of (backfill k c) k' =
     (if k' = k \<and> map_of c k = None then Some (defaults_at k) else map_of c k')"
  by (simp add: backfill_def update_conv')

text \<open>
  The three keys the loader merges are present after loading a parseable file, each with
  the file's value when the file has the key and with the default otherwise.
\<close>

lemma load_config_backfills:
  assumes "k \<in> {''scan'', ''files'', ''device''}"
  shows "config_get (fst (load_config (Parsed c))) k =
           Some (case map_of c k of None \<Rightarrow> defaults_at k | Some v \<Rightarrow> v)"
  using assms
  by (auto simp add: load_config_def config_get_def map_of_backfill split: option.splits)

text \<open>Every other key is passed through as the file has it, and stays missing when it is.\<close>

lemma load_config_other_keys:
  assumes "k \<notin> {''scan'', ''files'', ''device''}"
  shows "config_get (fst (load_config (Parsed c))) k = map_of c k"
  using assms
  by (auto simp add: load_config_def config_get_def map_of_backfill)

text \<open>A file that cannot be read or parsed is discarded: the result is the defaults.\<close>

lemma load_config_malformed:
  "load_config (Malformed e) = (defaults, [''Warning: Error reading config file: '' @ e])"
  by (simp add: load_config_def)

text \<open>
  C5. The statement: for every configuration-file state (absent, parseable but missing any
  of the top-level keys scan, files, device or server, malformed) the loader returns a
  configuration in which every field resolves to a value, each missing key backfilled from
  the defaults. The loader merges \<^verbatim>\<open>scan\<close>, \<^verbatim>\<open>files\<close> and \<^verbatim>\<open>device\<close> only. For an
  empty file, which parses to the empty dict, the returned configuration has these three
  keys and no \<^verbatim>\<open>server\<close> key: \<^verbatim>\<open>config.get('server')\<close> is \<^verbatim>\<open>None\<close>, not the default URL.
\<close>

theorem load_config_server_not_backfilled:
  "fst (load_config (Parsed [])) =
     [(''scan'', TTable [(''resolution'', TInt 200), (''mode'', TStr ''Color''),
                         (''quality'', TStr ''high'')]),
      (''files'', TTable [(''output_dir'', TStr ''scans'')]),
      (''device'', TInt 1)]
   \<and> config_get (fst (load_config (Parsed []))) ''server'' = None
   \<and> config_get defaults ''server'' = Some (TStr ''http://scan.home'')"
  by (simp add: load_config_def backfill_def config_get_def defaults_at_scan
      defaults_at_files defaults_at_device defaults_def)

text \<open>
  C6. When no configuration file exists at the platform-specific path, \<^verbatim>\<open>load_config\<close>
  returns exactly the built-in defaults: server \<^verbatim>\<open>http://scan.home\<close>, device 1, scan
  resolution 200, mode Color, quality high, and files output_dir \<^verbatim>\<open>scans\<close>; it prints
  nothing.
\<close>

theorem load_config_no_file:
  "load_config NoFile =
     ([(''server'', TStr ''http://scan.home''),
       (''device'', TInt 1),
       (''scan'', TTable [(''resolution'', TInt 200),
                          (''mode'', TStr ''Color''),
                          (''quality'', TStr ''high'')]),
       (''files'', TTable [(''output_dir'', TStr ''scans'')])], [])"
  by (simp add: load_config_def defaults_def)

section \<open>The console, the requests and the file system: basic facts\<close>

lemma gets_append [simp]: "gets (xs @ ys) = gets xs @ gets ys"
  by (simp add: gets_def)

lemma gets_simps [simp]:
  "gets [] = []"
  "gets (Print x # evs) = gets evs"
  "gets (HttpGet u # evs) = u # gets evs"
  "gets (HttpPost u b # evs) = gets evs"
  "gets (MakeDirs p # evs) = gets evs"
  "gets (WriteFile p c # evs) = gets evs"
  by (simp_all add: gets_def)

lemma posts_append [simp]: "posts (xs @ ys) = posts xs @ posts ys"
  by (simp add: posts_def)

lemma posts_simps [simp]:
  "posts [] = []"
  "posts (Print x # evs) = posts evs"
  "posts (HttpGet u # evs) = posts evs"
  "posts (HttpPost u b # evs) = (u, b) # posts evs"
  "posts (MakeDirs p # evs) = posts evs"
  "posts (WriteFile p c # evs) = posts evs"
  by (simp_all add: posts_def)

lemma print_simps [simp]:
  "trace (print x w) = trace w @ [Print x]" "clock (print x w) = clock w"
  "dirs (print x w) = dirs w" "files (print x w) = files w"
  by (simp_all add: print_def)

lemma request_simps [simp]:
  "trace (request e w) = trace w @ [e]" "clock (request e w) = Suc (clock w)"
  "dirs (request e w) = dirs w" "files (request e w) = files w"
  by (simp_all add: request_def)

text \<open>What a file operation that returns has done, and what one that raises has left.\<close>

lemma makedirs_returns:
  "makedirs fs p w = (Inr u, w') \<Longrightarrow>
     p \<noteq> [] \<and> makedirs_fails fs (clock w) p = None \<and>
     w' = w\<lparr>trace := trace w @ [MakeDirs p], dirs := insert p (set (ancestors p) \<union> dirs w)\<rparr>"
  by (auto simp add: makedirs_def split: if_splits option.splits)

lemma makedirs_raises:
  "makedirs fs p w = (Inl e, w') \<Longrightarrow>
     e = OSError \<and> (p = [] \<or> makedirs_fails fs (clock w) p \<noteq> None) \<and>
     trace w' = trace w \<and> clock w' = clock w \<and> files w' = files w \<and> dirs w \<subseteq> dirs w'"
  by (auto simp add: makedirs_def split: if_splits option.splits)

lemma makedirs_succeeds:
  "p \<noteq> [] \<Longrightarrow> makedirs_fails fs (clock w) p = None \<Longrightarrow>
     makedirs fs p w =
       (Inr (), w\<lparr>trace := trace w @ [MakeDirs p],
                   dirs := insert p (set (ancestors p) \<union> dirs w)\<rparr>)"
  by (simp add: makedirs_def)

lemma write_file_returns:
  "write_file fs p c w = (Inr u, w') \<Longrightarrow>
     p \<noteq> [] \<and> write_outcome fs (clock w) p c = Written \<and>
     w' = w\<lparr>trace := trace w @ [WriteFile p c], files := (files w)(p \<mapsto> c)\<rparr>"
  by (auto simp add: write_file_def split: if_splits write_result.splits)

lemma write_file_raises:
  "write_file fs p c w = (Inl e, w') \<Longrightarrow>
     e = OSError \<and> (p = [] \<or> write_outcome fs (clock w) p c \<noteq> Written) \<and>
     trace w' = trace w \<and> clock w' = clock w \<and> dirs w' = dirs w"
  by (auto simp add: write_file_def split: if_splits write_result.splits)

lemma write_file_succeeds:
  "p \<noteq> [] \<Longrightarrow> write_outcome fs (clock w) p c = Written \<Longrightarrow>
     write_file fs p c w =
       (Inr (), w\<lparr>trace := trace w @ [WriteFile p c], files := (files w)(p \<mapsto> c)\<rparr>)"
  by (simp add: write_file_def)

text \<open>Creating a directory that exists changes nothing on disk.\<close>

lemma makedirs_idem:
  assumes "makedirs fs p w = (Inr u, w1)" and "makedirs fs p w1 = (Inr u', w2)"
  shows "dirs w2 = dirs w1 \<and> files w2 = files w1"
  using makedirs_returns[OF assms(1)] makedirs_returns[OF assms(2)] by auto

lemma path_join_empty: "path_join [] b = b"
  by (simp add: path_join_def)

lemma path_join_nonempty: "a \<noteq> [] \<Longrightarrow> path_join a b \<noteq> []"
  by (simp add: path_join_def)

lemma exit_status_simps [simp]:
  "exit_status (Inr u) = 0" "exit_status (Inl (SystemExit c)) = c"
  "exit_status (Inl OSError) = 1" "exit_status (Inl TypeError) = 1"
  "exit_status (Inl OverflowError) = 1" "exit_status (Inl ValueError) = 1"
  by (simp_all add: exit_status_def)

lemma print_files_trace:
  "trace (print_files fl w) =
     trace w @ map (\<lambda>f. Print (''- '' @ file_name f @ '' ('' @ sizeString f @ '')'')) fl"
  by (induction fl arbitrary: w) simp_all

lemma print_files_frame [simp]:
  "clock (print_files fl w) = clock w" "dirs (print_files fl w) = dirs w"
  "files (print_files fl w) = files w"
  by (induction fl arbitrary: w) simp_all

lemma gets_map_Print [simp]: "gets (map (\<lambda>x. Print (g x)) xs) = []"
  by (induction xs) simp_all

lemma print_devices_frame [simp]:
  "clock (print_devices i ds w) = clock w" "dirs (print_devices i ds w) = dirs w"
  "files (print_devices i ds w) = files w"
  by (induction ds arbitrary: i w) simp_all

section \<open>Downloads\<close>

text \<open>
  What \<^verbatim>\<open>download_file\<close> does in each case: the request is always made; only an answer
  with status 200 touches the disk; only a file operation can raise.
\<close>

lemma download_file_cases:
  assumes "download_file srv fs s name od w = (r, w')"
  shows
   "(\<forall>tx content.
       get_file srv (clock w) (server_url s @ ''/api/v1/files/'' @ name) = Response 200 tx content \<longrightarrow>
         (\<forall>d. od = Some d \<and> d \<noteq> [] \<and> makedirs_fails fs (Suc (clock w)) d = None \<and>
              write_outcome fs (Suc (clock w)) (path_join d name) content = Written \<longrightarrow>
            r = Inr (Some (path_join d name)) \<and>
            trace w' = trace w @ [HttpGet (server_url s @ ''/api/v1/files/'' @ name),
                                  MakeDirs d, WriteFile (path_join d name) content] \<and>
            dirs w' = insert d (set (ancestors d) \<union> dirs w) \<and>
            files w' = (files w)(path_join d name \<mapsto> content)) \<and>
         ((od = None \<or> od = Some []) \<and> name \<noteq> [] \<and>
              write_outcome fs (Suc (clock w)) name content = Written \<longrightarrow>
            r = Inr (Some name) \<and>
            trace w' = trace w @ [HttpGet (server_url s @ ''/api/v1/files/'' @ name),
                                  WriteFile name content] \<and>
            dirs w' = dirs w \<and> files w' = (files w)(name \<mapsto> content))) \<and>
    (\<forall>code tx content.
       get_file srv (clock w) (server_url s @ ''/api/v1/files/'' @ name) = Response code tx content
         \<and> code \<noteq> 200 \<longrightarrow>
         r = Inr None \<and>
         trace w' = trace w @ [HttpGet (server_url s @ ''/api/v1/files/'' @ name),
                               Print (''Error downloading '' @ name @ '': '' @ str_nat code)] \<and>
         dirs w' = dirs w \<and> files w' = files w) \<and>
    (\<forall>e.
       get_file srv (clock w) (server_url s @ ''/api/v1/files/'' @ name) = RequestException e \<longrightarrow>
         r = Inr None \<and>
         trace w' = trace w @ [HttpGet (server_url s @ ''/api/v1/files/'' @ name),
                               Print (''Connection error downloading '' @ name @ '': '' @ e)] \<and>
         dirs w' = dirs w \<and> files w' = files w)"
  using assms
  by (auto simp add: download_file_def Let_def py_truthy_def makedirs_def write_file_def
      path_join_nonempty)

lemma download_file_posts:
  "download_file srv fs s f od w = (r, w') \<Longrightarrow> posts (trace w') = posts (trace w)"
  by (auto simp add: download_file_def Let_def makedirs_def write_file_def
      split: response.splits if_splits prod.splits sum.splits option.splits write_result.splits)

lemma download_file_gets:
  "download_file srv fs s f od w = (r, w') \<Longrightarrow>
     gets (trace w') = gets (trace w) @ [server_url s @ ''/api/v1/files/'' @ f]"
  by (auto simp add: download_file_def Let_def makedirs_def write_file_def
      split: response.splits if_splits prod.splits sum.splits option.splits write_result.splits)

lemma download_file_extends:
  "download_file srv fs s f od w = (r, w') \<Longrightarrow>
     (\<exists>E. trace w' = trace w @ E) \<and> dirs w \<subseteq> dirs w'"
  by (auto simp add: download_file_def Let_def makedirs_def write_file_def
      split: response.splits if_splits prod.splits sum.splits option.splits write_result.splits)

lemma download_file_exn:
  "download_file srv fs s f od w = (Inl e, w') \<Longrightarrow> e = OSError"
  by (auto simp add: download_file_def Let_def makedirs_def write_file_def
      split: response.splits if_splits prod.splits sum.splits option.splits write_result.splits)

lemma download_file_None_keeps_disk:
  "download_file srv fs s f od w = (Inr None, w') \<Longrightarrow> files w' = files w \<and> dirs w' = dirs w"
  by (auto simp add: download_file_def Let_def makedirs_def write_file_def
      split: response.splits if_splits prod.splits sum.splits option.splits write_result.splits)

lemma list_files_ok:
  assumes "get_files srv (clock w) (server_url s @ ''/api/v1/files'') = Response 200 tx fl"
    and "fl \<noteq> []"
  shows "list_files srv s w =
           (fl, w\<lparr>trace := trace w @ HttpGet (server_url s @ ''/api/v1/files'') #
                   Print (CHR 0x0A # ''Files on server:'') #
                   map (\<lambda>f. Print (''- '' @ file_name f @ '' ('' @ sizeString f @ '')'')) fl
                   @ [Print []],
                 clock := Suc (clock w)\<rparr>)"
  using assms by (simp add: list_files_def Let_def print_files_trace)

text \<open>
  The loop requests the listed files in order. When it returns, it has requested every
  one of them; when an exception ends it, it has requested the files up to the one whose
  download raised, and no later one.
\<close>

lemma download_each_trace:
  "\<exists>B. trace (snd (download_each srv fs s od fl w)) = trace w @ B \<and>
       (case fst (download_each srv fs s od fl w) of
          Inr u \<Rightarrow> gets B = map (\<lambda>f. server_url s @ ''/api/v1/files/'' @ file_name f) fl
        | Inl e \<Rightarrow> e = OSError \<and>
            (\<exists>k < length fl.
               gets B = map (\<lambda>f. server_url s @ ''/api/v1/files/'' @ file_name f) (take (Suc k) fl)))"
proof (induction fl arbitrary: w)
  case Nil
  show ?case by simp
next
  case (Cons f fl)
  let ?w1 = "print (''Downloading '' @ file_name f @ ''...'') w"
  obtain r w2 where dl: "download_file srv fs s (file_name f) od ?w1 = (r, w2)"
    by (cases "download_file srv fs s (file_name f) od ?w1")
  obtain E where E: "trace w2 = trace ?w1 @ E"
    using download_file_extends[OF dl] by blast
  have gE: "gets E = [server_url s @ ''/api/v1/files/'' @ file_name f]"
    using download_file_gets[OF dl] E by simp
  show ?case
  proof (cases r)
    case (Inl e)
    have e: "e = OSError" using dl Inl download_file_exn by blast
    have "download_each srv fs s od (f # fl) w = (Inl e, w2)"
      using dl Inl by simp
    then show ?thesis
      using E gE e
      by (intro exI[of _ "Print (''Downloading '' @ file_name f @ ''...'') # E"]) auto
  next
    case (Inr lp)
    let ?w3 = "if py_truthy lp then print (''Saved to: '' @ the lp) w2 else w2"
    obtain S where S: "trace ?w3 = trace w2 @ S" "gets S = []"
      by (cases "py_truthy lp") simp_all
    obtain B where B: "trace (snd (download_each srv fs s od fl ?w3)) = trace ?w3 @ B"
      "(case fst (download_each srv fs s od fl ?w3) of
          Inr u \<Rightarrow> gets B = map (\<lambda>f. server_url s @ ''/api/v1/files/'' @ file_name f) fl
        | Inl e \<Rightarrow> e = OSError \<and>
            (\<exists>k < length fl.
               gets B = map (\<lambda>f. server_url s @ ''/api/v1/files/'' @ file_name f) (take (Suc k) fl)))"
      using Cons.IH by blast
    have step: "download_each srv fs s od (f # fl) w = download_each srv fs s od fl ?w3"
      using dl Inr by simp
    show ?thesis
    proof (cases "fst (download_each srv fs s od fl ?w3)")
      case (Inr u)
      then show ?thesis
        using step E gE S B
        by (intro exI[of _ "Print (''Downloading '' @ file_name f @ ''...'') # E @ S @ B"]) simp
    next
      case (Inl e)
      then obtain k where k: "k < length fl" "e = OSError"
        "gets B = map (\<lambda>f. server_url s @ ''/api/v1/files/'' @ file_name f) (take (Suc k) fl)"
        using B(2) by auto
      have "Suc k < length (f # fl)" using k(1) by simp
      moreover have "gets (Print (''Downloading '' @ file_name f @ ''...'') # E @ S @ B) =
          map (\<lambda>f. server_url s @ ''/api/v1/files/'' @ file_name f) (take (Suc (Suc k)) (f # fl))"
        using gE S(2) k(3) by simp
      ultimately show ?thesis
        using step E S B(1) Inl k(2)
        by (intro exI[of _ "Print (''Downloading '' @ file_name f @ ''...'') # E @ S @ B"])
           (simp, blast)
    qed
  qed
qed

text \<open>
  When \<^verbatim>\<open>download_all\<close> returns, for a non-empty listing of length \<open>k\<close> it has printed
  the count after the listing request and before any download request, and then requested
  each of the \<open>k\<close> files, in the order listed, whatever the server answered.
\<close>

lemma download_all_attempts_every_file_when_it_returns:
  assumes "get_files srv (clock w) (server_url s @ ''/api/v1/files'') = Response 200 tx fl"
    and "fl \<noteq> []"
    and "fst (download_all srv fs s od w) = Inr ()"
  shows "\<exists>A B. trace (snd (download_all srv fs s od w)) =
             trace w @ A @ [Print (''Found '' @ str_nat (length fl) @ '' files'')] @ B \<and>
           gets A = [server_url s @ ''/api/v1/files''] \<and>
           gets B = map (\<lambda>f. server_url s @ ''/api/v1/files/'' @ file_name f) fl"
proof -
  obtain r0 w0 where m: "(if py_truthy od then makedirs fs (the od) w else (Inr (), w)) = (r0, w0)"
    by (cases "if py_truthy od then makedirs fs (the od) w else (Inr (), w)")
  have r0: "r0 = Inr ()"
  proof (cases r0)
    case (Inl e)
    then have "fst (download_all srv fs s od w) = Inl e"
      using m by (simp add: download_all_def)
    then show ?thesis using assms(3) by simp
  qed simp
  have c0: "clock w0 = clock w"
    using m r0 by (auto simp add: makedirs_def split: if_splits option.splits)
  obtain M where M: "trace w0 = trace w @ M" "gets M = []"
    using m r0 by (auto simp add: makedirs_def split: if_splits option.splits)
  let ?L = "HttpGet (server_url s @ ''/api/v1/files'') #
             Print (CHR 0x0A # ''Files on server:'') #
             map (\<lambda>f. Print (''- '' @ file_name f @ '' ('' @ sizeString f @ '')'')) fl @ [Print []]"
  let ?w1 = "w0\<lparr>trace := trace w0 @ ?L, clock := Suc (clock w0)\<rparr>"
  have lf: "list_files srv s w0 = (fl, ?w1)"
    using assms(1,2) c0 by (intro list_files_ok) simp_all
  let ?w2 = "print (''Found '' @ str_nat (length fl) @ '' files'') ?w1"
  have da: "download_all srv fs s od w = download_each srv fs s od fl ?w2"
    using assms(2) lf m r0 by (simp add: download_all_def)
  obtain B where B: "trace (snd (download_each srv fs s od fl ?w2)) = trace ?w2 @ B"
    "(case fst (download_each srv fs s od fl ?w2) of
          Inr u \<Rightarrow> gets B = map (\<lambda>f. server_url s @ ''/api/v1/files/'' @ file_name f) fl
        | Inl e \<Rightarrow> e = OSError \<and>
            (\<exists>k < length fl.
               gets B = map (\<lambda>f. server_url s @ ''/api/v1/files/'' @ file_name f) (take (Suc k) fl)))"
    using download_each_trace by blast
  have gB: "gets B = map (\<lambda>f. server_url s @ ''/api/v1/files/'' @ file_name f) fl"
    using B(2) da assms(3) by simp
  have "trace (snd (download_all srv fs s od w)) =
      trace w @ (M @ ?L) @ [Print (''Found '' @ str_nat (length fl) @ '' files'')] @ B"
    using B(1) M(1) da by simp
  moreover have "gets (M @ ?L) = [server_url s @ ''/api/v1/files'']"
    using M(2) by simp
  ultimately show ?thesis using gB by blast
qed



text \<open>
  C7. The statement: for every call \<^verbatim>\<open>download_file(name, output_dir)\<close> that receives status
  200, the content is written to \<^verbatim>\<open>join(output_dir, name)\<close> (to \<^verbatim>\<open>name\<close> without an output
  directory), the output directory is created before the file is written and the written
  path is returned; otherwise the call prints a diagnostic and returns \<^verbatim>\<open>None\<close>. The
  function's docstring says the same: the path, or \<^verbatim>\<open>None\<close> if failed. That is what the
  function does as long as the file operations succeed (\<open>download_file_cases\<close>). It has no
  handler for their errors: the server answers the request for \<^verbatim>\<open>sub/a.jpg\<close> with status
  200, \<^verbatim>\<open>open('scans/sub/a.jpg', 'wb')\<close> raises because there is no directory
  \<^verbatim>\<open>scans/sub\<close>, and the call neither returns the path nor \<^verbatim>\<open>None\<close>: the exception
  escapes, with nothing written.
\<close>

theorem download_file_write_error_escapes:
  "get_file subdir_server (clock world0) (server_url selected @ ''/api/v1/files/'' @ ''sub/a.jpg'')
     = Response 200 [] ''JFIF'' \<and>
   download_file subdir_server flat_fs selected ''sub/a.jpg'' (Some ''scans'') world0 =
     (Inl OSError,
      \<lparr>trace = [HttpGet ''http://scan.home/api/v1/files/sub/a.jpg'', MakeDirs ''scans''],
       clock = 1, dirs = {''scans''}, files = Map.empty\<rparr>)"
  by (simp add: download_file_def subdir_server_def flat_fs_def selected_def world_defs)

text \<open>
  C8. The statement: for every non-empty file listing of length \<open>k\<close>, \<^verbatim>\<open>download_all\<close>
  reports the count \<open>k\<close> before any download starts and then attempts each of the \<open>k\<close>
  files; the failure of one download does not abort the remaining ones. That holds
  whenever the loop comes to its end (\<open>download_all_attempts_every_file_when_it_returns\<close>),
  which it does when every failing download returns \<^verbatim>\<open>None\<close>. The loop has no handler:
  with the two files \<^verbatim>\<open>sub/a.jpg\<close> and \<^verbatim>\<open>b.jpg\<close> listed and every request answered with
  status 200, writing the first file raises, the exception ends \<^verbatim>\<open>download_all\<close>, and
  \<^verbatim>\<open>b.jpg\<close> is never requested.
\<close>

theorem download_all_stops_at_write_error:
  "get_files subdir_server (clock world0) (server_url selected @ ''/api/v1/files'')
     = Response 200 [] subdir_files \<and>
   length subdir_files = 2 \<and>
   download_all subdir_server flat_fs selected (Some ''scans'') world0 =
     (Inl OSError,
      \<lparr>trace = [MakeDirs ''scans'', HttpGet ''http://scan.home/api/v1/files'',
                Print (CHR 0x0A # ''Files on server:''), Print ''- sub/a.jpg (1 KB)'',
                Print ''- b.jpg (2 KB)'', Print [], Print ''Found 2 files'',
                Print ''Downloading sub/a.jpg...'',
                HttpGet ''http://scan.home/api/v1/files/sub/a.jpg'', MakeDirs ''scans''],
       clock = 2, dirs = {''scans''}, files = Map.empty\<rparr>) \<and>
   gets (trace (snd (download_all subdir_server flat_fs selected (Some ''scans'') world0))) =
     [''http://scan.home/api/v1/files'', ''http://scan.home/api/v1/files/sub/a.jpg'']"
  by (simp add: download_all_def list_files_def download_file_def subdir_server_def
      subdir_files_def flat_fs_def selected_def world_defs)

section \<open>Scanning\<close>

text \<open>
  C1. For every call of \<^verbatim>\<open>scan_a4\<close> with a selected device (\<^verbatim>\<open>self.device_id\<close> is a
  non-empty id) and parameters resolution \<open>r\<close>, mode \<open>m\<close>, quality \<open>q\<close>, the request
  POSTed to \<^verbatim>\<open><server>/api/v1/scan\<close> has the body with the selected id, \<open>r\<close>, \<open>m\<close>, width
  and pageWidth 210, height and pageHeight 297, top and left 0, and the pipeline
  \<^verbatim>\<open>JPG | @:pipeline.<q>-quality\<close>. Exactly one such request is made, unless an output
  directory is given and cannot be created: then none is.
\<close>

theorem scan_a4_request_body:
  assumes "device_id s = Some d" and "d \<noteq> []"
  shows "posts (trace (snd (scan_a4 srv fs s od r m q w))) =
           posts (trace w) @
           (if py_truthy od \<and> makedirs_fails fs (clock w) (the od) \<noteq> None then []
            else [(server_url s @ ''/api/v1/scan'',
                   \<lparr>params = \<lparr>deviceId = d, resolution = r, mode = m, width = 210, height = 297,
                               pageWidth = 210, pageHeight = 297, top' = 0, left' = 0\<rparr>,
                    pipeline = ''JPG | @:pipeline.'' @ q @ ''-quality''\<rparr>)])"
  using assms
  by (auto simp add: scan_a4_def Let_def py_truthy_def makedirs_def
      split: response.splits option.splits prod.splits sum.splits
      dest!: download_file_posts)

theorem scan_a4_request_body_witness:
  "posts (trace (snd (scan_a4 demo_server good_fs selected None 200 ''Color'' ''high'' world0))) =
     [(''http://scan.home/api/v1/scan'',
       \<lparr>params = \<lparr>deviceId = ''dev1'', resolution = 200, mode = ''Color'', width = 210,
                   height = 297, pageWidth = 210, pageHeight = 297, top' = 0, left' = 0\<rparr>,
        pipeline = ''JPG | @:pipeline.high-quality''\<rparr>)] \<and>
   posts (trace (snd (scan_a4 demo_server good_fs selected (Some ''scans'') 200 ''Color'' ''high''
                        world0))) =
     [(''http://scan.home/api/v1/scan'',
       \<lparr>params = \<lparr>deviceId = ''dev1'', resolution = 200, mode = ''Color'', width = 210,
                   height = 297, pageWidth = 210, pageHeight = 297, top' = 0, left' = 0\<rparr>,
        pipeline = ''JPG | @:pipeline.high-quality''\<rparr>)] \<and>
   posts (trace (snd (scan_a4 demo_server no_mkdir_fs selected (Some ''scans'') 200 ''Color''
                        ''high'' world0))) = []"
  using scan_a4_request_body[where s = selected and d = "''dev1''" and srv = demo_server
      and fs = good_fs and od = None and r = 200 and m = "''Color''" and q = "''high''"
      and w = world0]
    scan_a4_request_body[where s = selected and d = "''dev1''" and srv = demo_server
      and fs = good_fs and od = "Some ''scans''" and r = 200 and m = "''Color''"
      and q = "''high''" and w = world0]
    scan_a4_request_body[where s = selected and d = "''dev1''" and srv = demo_server
      and fs = no_mkdir_fs and od = "Some ''scans''" and r = 200 and m = "''Color''"
      and q = "''high''" and w = world0]
  by (simp add: selected_def world0_def good_fs_def no_mkdir_fs_def py_truthy_def)

text \<open>
  C2. When no device has been selected, \<^verbatim>\<open>scan_a4\<close> prints a message and returns
  \<^verbatim>\<open>None\<close>; it sends no request and touches no file or directory: the printed line is the
  only change. The guard is \<^verbatim>\<open>not self.device_id\<close>, which holds for the unset id
  (\<^verbatim>\<open>None\<close>) and for an empty one.
\<close>

theorem scan_a4_no_device:
  "\<not> py_truthy (device_id s) \<Longrightarrow>
   scan_a4 srv fs s od r m q w =
     (Inr None,
      w\<lparr>trace := trace w @ [Print ''No scanner selected. Use --device to select a scanner.'']\<rparr>)"
  by (simp add: scan_a4_def print_def)

theorem scan_a4_no_device_witness:
  "scan_a4 demo_server good_fs (Scanner ''http://scan.home'') (Some ''scans'') 200 ''Color''
     ''high'' world0 =
     (Inr None, \<lparr>trace = [Print ''No scanner selected. Use --device to select a scanner.''],
                 clock = 0, dirs = {}, files = Map.empty\<rparr>)"
  using scan_a4_no_device[where s = "Scanner ''http://scan.home''" and srv = demo_server
      and fs = good_fs and od = "Some ''scans''" and r = 200 and m = "''Color''"
      and q = "''high''" and w = world0]
  by (simp add: Scanner_def world0_def py_truthy_def)

text \<open>
  C4. \<^verbatim>\<open>scan_a4\<close> tests \<^verbatim>\<open>output_dir\<close> for absence, not for emptiness: after a scan that
  is sent (the output directory, if one is given, could be created) and that the server
  answers with status 200 and a file name, the file is requested from the server exactly
  when \<^verbatim>\<open>output_dir\<close> is not \<^verbatim>\<open>None\<close>. With the empty string as \<^verbatim>\<open>output_dir\<close>, a
  download answered with status 200 is written under the bare file name, provided that the
  name is not empty and the write succeeds, and no directory is created. With \<^verbatim>\<open>None\<close>
  nothing is requested or written and the result is \<^verbatim>\<open>None\<close>.
\<close>

theorem scan_a4_download_iff_output_dir_present:
  assumes "device_id s = Some dv" and "dv \<noteq> []"
    and "py_truthy od \<longrightarrow> makedirs_fails fs (clock w) (the od) = None"
    and "post_scan srv (clock w) (server_url s @ ''/api/v1/scan'')
           \<lparr>params = \<lparr>deviceId = dv, resolution = r, mode = m, width = 210, height = 297,
                       pageWidth = 210, pageHeight = 297, top' = 0, left' = 0\<rparr>,
            pipeline = ''JPG | @:pipeline.'' @ q @ ''-quality''\<rparr>
         = Response 200 tx (Some filename)"
  shows "gets (trace (snd (scan_a4 srv fs s od r m q w))) =
           gets (trace w) @
             (if od = None then [] else [server_url s @ ''/api/v1/files/'' @ filename]) \<and>
         (od = None \<longrightarrow>
            fst (scan_a4 srv fs s od r m q w) = Inr None \<and>
            files (snd (scan_a4 srv fs s od r m q w)) = files w) \<and>
         (\<forall>t content.
            od = Some [] \<and> filename \<noteq> [] \<and>
            get_file srv (Suc (clock w)) (server_url s @ ''/api/v1/files/'' @ filename)
              = Response 200 t content \<and>
            write_outcome fs (Suc (Suc (clock w))) filename content = Written \<longrightarrow>
            fst (scan_a4 srv fs s od r m q w) = Inr (Some filename) \<and>
            files (snd (scan_a4 srv fs s od r m q w)) = (files w)(filename \<mapsto> content) \<and>
            dirs (snd (scan_a4 srv fs s od r m q w)) = dirs w \<and>
            WriteFile filename content \<in> set (trace (snd (scan_a4 srv fs s od r m q w))))"
proof -
  have A: "gets (trace (snd (scan_a4 srv fs s od r m q w))) =
           gets (trace w) @
             (if od = None then [] else [server_url s @ ''/api/v1/files/'' @ filename])"
    using assms
    by (cases od)
       (auto simp add: scan_a4_def Let_def py_truthy_def makedirs_def
        split: prod.splits sum.splits dest!: download_file_gets)
  have B: "od = None \<longrightarrow>
            fst (scan_a4 srv fs s od r m q w) = Inr None \<and>
            files (snd (scan_a4 srv fs s od r m q w)) = files w"
    using assms by (simp add: scan_a4_def Let_def py_truthy_def)
  have C: "fst (scan_a4 srv fs s od r m q w) = Inr (Some filename) \<and>
            files (snd (scan_a4 srv fs s od r m q w)) = (files w)(filename \<mapsto> content) \<and>
            dirs (snd (scan_a4 srv fs s od r m q w)) = dirs w \<and>
            WriteFile filename content \<in> set (trace (snd (scan_a4 srv fs s od r m q w)))"
    if "od = Some []" and "filename \<noteq> []"
      and "get_file srv (Suc (clock w)) (server_url s @ ''/api/v1/files/'' @ filename)
              = Response 200 t content"
      and "write_outcome fs (Suc (Suc (clock w))) filename content = Written" for t content
    using assms that
    by (simp add: scan_a4_def Let_def py_truthy_def download_file_def write_file_def)
  show ?thesis using A B C by blast
qed

theorem scan_a4_download_witness:
  "gets (trace (snd (scan_a4 demo_server good_fs selected (Some []) 200 ''Color'' ''high'' world0))) =
     [''http://scan.home/api/v1/files/scan.jpg''] \<and>
   fst (scan_a4 demo_server good_fs selected (Some []) 200 ''Color'' ''high'' world0) =
     Inr (Some ''scan.jpg'') \<and>
   files (snd (scan_a4 demo_server good_fs selected (Some []) 200 ''Color'' ''high'' world0)) =
     [''scan.jpg'' \<mapsto> ''JFIF''] \<and>
   dirs (snd (scan_a4 demo_server good_fs selected (Some []) 200 ''Color'' ''high'' world0)) = {} \<and>
   gets (trace (snd (scan_a4 demo_server good_fs selected None 200 ''Color'' ''high'' world0))) = [] \<and>
   gets (trace (snd (scan_a4 demo_server good_fs selected (Some ''scans'') 200 ''Color'' ''high''
                       world0))) =
     [''http://scan.home/api/v1/files/scan.jpg''] \<and>
   gets (trace (snd (scan_a4 demo_server readonly_fs selected (Some ''scans'') 200 ''Color''
                       ''high'' world0))) =
     [''http://scan.home/api/v1/files/scan.jpg'']"
  using scan_a4_download_iff_output_dir_present[where s = selected and dv = "''dev1''"
      and srv = demo_server and fs = good_fs and w = world0 and r = 200 and m = "''Color''"
      and q = "''high''" and tx = "[]" and filename = "''scan.jpg''" and od = "Some []"]
    scan_a4_download_iff_output_dir_present[where s = selected and dv = "''dev1''"
      and srv = demo_server and fs = good_fs and w = world0 and r = 200 and m = "''Color''"
      and q = "''high''" and tx = "[]" and filename = "''scan.jpg''" and od = "None"]
    scan_a4_download_iff_output_dir_present[where s = selected and dv = "''dev1''"
      and srv = demo_server and fs = good_fs and w = world0 and r = 200 and m = "''Color''"
      and q = "''high''" and tx = "[]" and filename = "''scan.jpg''" and od = "Some ''scans''"]
    scan_a4_download_iff_output_dir_present[where s = selected and dv = "''dev1''"
      and srv = demo_server and fs = readonly_fs and w = world0 and r = 200 and m = "''Color''"
      and q = "''high''" and tx = "[]" and filename = "''scan.jpg''" and od = "Some ''scans''"]
  by (simp add: selected_def world0_def demo_server_def good_fs_def readonly_fs_def py_truthy_def)

text \<open>
  C10. For every call of \<^verbatim>\<open>scan_a4\<close> with a selected device and a non-empty
  \<^verbatim>\<open>output_dir\<close> that \<^verbatim>\<open>os.makedirs\<close> can create, the output directory is created before
  the scan request is sent, and it (with its ancestors) exists afterwards, whatever the
  server answers. When the scan fails with a status other than 200 or with a connection
  error, the result is \<^verbatim>\<open>None\<close>, no file is requested and no file is written.
\<close>

theorem scan_a4_creates_output_dir_first:
  assumes "device_id s = Some dv" and "dv \<noteq> []" and "od = Some d" and "d \<noteq> []"
    and "makedirs_fails fs (clock w) d = None"
  shows "(\<exists>rest. trace (snd (scan_a4 srv fs s od r m q w)) =
            trace w @ MakeDirs d # Print ''Scanning...'' #
              HttpPost (server_url s @ ''/api/v1/scan'')
                \<lparr>params = \<lparr>deviceId = dv, resolution = r, mode = m, width = 210, height = 297,
                            pageWidth = 210, pageHeight = 297, top' = 0, left' = 0\<rparr>,
                 pipeline = ''JPG | @:pipeline.'' @ q @ ''-quality''\<rparr> # rest) \<and>
         d \<in> dirs (snd (scan_a4 srv fs s od r m q w)) \<and>
         set (ancestors d) \<subseteq> dirs (snd (scan_a4 srv fs s od r m q w)) \<and>
         (\<forall>code tx res.
            post_scan srv (clock w) (server_url s @ ''/api/v1/scan'')
              \<lparr>params = \<lparr>deviceId = dv, resolution = r, mode = m, width = 210, height = 297,
                          pageWidth = 210, pageHeight = 297, top' = 0, left' = 0\<rparr>,
               pipeline = ''JPG | @:pipeline.'' @ q @ ''-quality''\<rparr> = Response code tx res
            \<and> code \<noteq> 200 \<longrightarrow>
              fst (scan_a4 srv fs s od r m q w) = Inr None \<and>
              files (snd (scan_a4 srv fs s od r m q w)) = files w \<and>
              gets (trace (snd (scan_a4 srv fs s od r m q w))) = gets (trace w)) \<and>
         (\<forall>e.
            post_scan srv (clock w) (server_url s @ ''/api/v1/scan'')
              \<lparr>params = \<lparr>deviceId = dv, resolution = r, mode = m, width = 210, height = 297,
                          pageWidth = 210, pageHeight = 297, top' = 0, left' = 0\<rparr>,
               pipeline = ''JPG | @:pipeline.'' @ q @ ''-quality''\<rparr> = RequestException e
            \<longrightarrow>
              fst (scan_a4 srv fs s od r m q w) = Inr None \<and>
              files (snd (scan_a4 srv fs s od r m q w)) = files w \<and>
              gets (trace (snd (scan_a4 srv fs s od r m q w))) = gets (trace w))"
proof -
  have A: "(\<exists>rest. trace (snd (scan_a4 srv fs s od r m q w)) =
            trace w @ MakeDirs d # Print ''Scanning...'' #
              HttpPost (server_url s @ ''/api/v1/scan'')
                \<lparr>params = \<lparr>deviceId = dv, resolution = r, mode = m, width = 210, height = 297,
                            pageWidth = 210, pageHeight = 297, top' = 0, left' = 0\<rparr>,
                 pipeline = ''JPG | @:pipeline.'' @ q @ ''-quality''\<rparr> # rest) \<and>
         d \<in> dirs (snd (scan_a4 srv fs s od r m q w)) \<and>
         set (ancestors d) \<subseteq> dirs (snd (scan_a4 srv fs s od r m q w))"
    using assms
    by (auto simp add: scan_a4_def Let_def py_truthy_def makedirs_def
        split: response.splits option.splits prod.splits sum.splits
        dest!: download_file_extends)
  have B: "fst (scan_a4 srv fs s od r m q w) = Inr None \<and>
           files (snd (scan_a4 srv fs s od r m q w)) = files w \<and>
           gets (trace (snd (scan_a4 srv fs s od r m q w))) = gets (trace w)"
    if "post_scan srv (clock w) (server_url s @ ''/api/v1/scan'')
              \<lparr>params = \<lparr>deviceId = dv, resolution = r, mode = m, width = 210, height = 297,
                          pageWidth = 210, pageHeight = 297, top' = 0, left' = 0\<rparr>,
               pipeline = ''JPG | @:pipeline.'' @ q @ ''-quality''\<rparr> = Response code tx res"
      and "code \<noteq> 200" for code tx res
    using assms that by (simp add: scan_a4_def Let_def py_truthy_def makedirs_def)
  have C: "fst (scan_a4 srv fs s od r m q w) = Inr None \<and>
           files (snd (scan_a4 srv fs s od r m q w)) = files w \<and>
           gets (trace (snd (scan_a4 srv fs s od r m q w))) = gets (trace w)"
    if "post_scan srv (clock w) (server_url s @ ''/api/v1/scan'')
              \<lparr>params = \<lparr>deviceId = dv, resolution = r, mode = m, width = 210, height = 297,
                          pageWidth = 210, pageHeight = 297, top' = 0, left' = 0\<rparr>,
               pipeline = ''JPG | @:pipeline.'' @ q @ ''-quality''\<rparr> = RequestException e"
    for e
    using assms that by (simp add: scan_a4_def Let_def py_truthy_def makedirs_def)
  show ?thesis using A B C by blast
qed

theorem scan_a4_creates_output_dir_first_witness:
  "scan_a4 offline_server good_fs selected (Some ''scans'') 200 ''Color'' ''high'' world0 =
     (Inr None,
      \<lparr>trace = [MakeDirs ''scans'', Print ''Scanning...'',
                HttpPost ''http://scan.home/api/v1/scan''
                  \<lparr>params = \<lparr>deviceId = ''dev1'', resolution = 200, mode = ''Color'',
                              width = 210, height = 297, pageWidth = 210, pageHeight = 297,
                              top' = 0, left' = 0\<rparr>,
                   pipeline = ''JPG | @:pipeline.high-quality''\<rparr>,
                Print ''Connection error: refused''],
       clock = 1, dirs = {''scans''}, files = Map.empty\<rparr>) \<and>
   ''scans'' \<in> dirs (snd (scan_a4 offline_server good_fs selected (Some ''scans'') 200 ''Color''
                             ''high'' world0)) \<and>
   ''scans'' \<in> dirs (snd (scan_a4 no_scanner_server good_fs selected (Some ''scans'') 200
                             ''Color'' ''high'' world0))"
proof -
  have e: "scan_a4 offline_server good_fs selected (Some ''scans'') 200 ''Color'' ''high'' world0 =
     (Inr None,
      \<lparr>trace = [MakeDirs ''scans'', Print ''Scanning...'',
                HttpPost ''http://scan.home/api/v1/scan''
                  \<lparr>params = \<lparr>deviceId = ''dev1'', resolution = 200, mode = ''Color'',
                              width = 210, height = 297, pageWidth = 210, pageHeight = 297,
                              top' = 0, left' = 0\<rparr>,
                   pipeline = ''JPG | @:pipeline.high-quality''\<rparr>,
                Print ''Connection error: refused''],
       clock = 1, dirs = {''scans''}, files = Map.empty\<rparr>)"
    by (simp add: scan_a4_def offline_server_def good_fs_def selected_def world_defs)
  have h: "device_id selected = Some ''dev1''" "''dev1'' \<noteq> []" "''scans'' \<noteq> []"
    "makedirs_fails good_fs (clock world0) ''scans'' = None"
    by (simp_all add: selected_def good_fs_def)
  have c1: "''scans'' \<in> dirs (snd (scan_a4 offline_server good_fs selected (Some ''scans'') 200
                                     ''Color'' ''high'' world0))"
    using scan_a4_creates_output_dir_first[OF h(1) h(2) refl h(3) h(4)] by blast
  have c2: "''scans'' \<in> dirs (snd (scan_a4 no_scanner_server good_fs selected (Some ''scans'') 200
                                     ''Color'' ''high'' world0))"
    using scan_a4_creates_output_dir_first[OF h(1) h(2) refl h(3) h(4)] by blast
  show ?thesis
    by (intro conjI) (rule e c1 c2)+
qed

text \<open>When the directory cannot be created, nothing is sent and the exception escapes.\<close>

lemma scan_a4_makedirs_raises:
  assumes "device_id s = Some dv" and "dv \<noteq> []" and "od = Some d" and "d \<noteq> []"
    and "makedirs_fails fs (clock w) d = Some j"
  shows "fst (scan_a4 srv fs s od r m q w) = Inl OSError \<and>
         trace (snd (scan_a4 srv fs s od r m q w)) = trace w \<and>
         clock (snd (scan_a4 srv fs s od r m q w)) = clock w"
  using assms by (simp add: scan_a4_def py_truthy_def makedirs_def)


lemma scan_a4_makedirs_raises_example:
  "scan_a4 demo_server no_mkdir_fs selected (Some ''scans'') 200 ''Color'' ''high'' world0 =
     (Inl OSError, world0)"
  by (simp add: scan_a4_def no_mkdir_fs_def selected_def world_defs)

section \<open>Selecting a device\<close>








section \<open>Exit status\<close>







text \<open>
  The device number is looked at only when \<^verbatim>\<open>--scan\<close> is given: a run with
  \<^verbatim>\<open>--download-all --device 0\<close> returns normally.
\<close>

lemma main_download_all_bad_device_exits_zero:
  "py_int (IntArg 0) = Inr 0 \<and>
   exit_status (fst (main ok_server good_fs True
      (default_args\<lparr>arg_download_all := True, arg_device := IntArg 0\<rparr>) world0)) = 0"
  by (simp add: main_def main_scan_def main_download_all_def main_download_def download_all_def
      list_files_def download_file_def Scanner_def ok_server_def two_files_def good_fs_def
      default_args_def fstr_def py_int_def world_defs)



end
